theory Spec2Isabelle
  imports Complex_Main "HOL-Library.Word"
begin

section \<open>Vector algebra\<close>

text \<open>
  The ray tracer of package \<open>rt\<close> computes on \<open>float64\<close>. The embedding reads a
  \<open>float64\<close> as a real number: every operation is the exact one, without rounding,
  infinities or NaN. A division by zero, which gives an infinity or NaN in the source and
  never panics, is HOL's total division here.
\<close>

record P3 =
  X :: real
  Y :: real
  Z :: real

definition Origin :: P3 where
  "Origin = \<lparr>X = 0, Y = 0, Z = 0\<rparr>"

definition Epsilon :: real where
  "Epsilon = 1 / 1000000"

definition Add :: "P3 \<Rightarrow> P3 \<Rightarrow> P3" where
  "Add p q = \<lparr>X = X p + X q, Y = Y p + Y q, Z = Z p + Z q\<rparr>"

definition Sub :: "P3 \<Rightarrow> P3 \<Rightarrow> P3" where
  "Sub p q = \<lparr>X = X p - X q, Y = Y p - Y q, Z = Z p - Z q\<rparr>"

definition Len :: "P3 \<Rightarrow> real" where
  "Len p = sqrt (X p * X p + Y p * Y p + Z p * Z p)"

definition Normalise :: "P3 \<Rightarrow> P3" where
  "Normalise p = (let l = Len p in \<lparr>X = X p / l, Y = Y p / l, Z = Z p / l\<rparr>)"

definition Scale :: "P3 \<Rightarrow> real \<Rightarrow> P3" where
  "Scale p s = \<lparr>X = X p * s, Y = Y p * s, Z = Z p * s\<rparr>"

definition Dot :: "P3 \<Rightarrow> P3 \<Rightarrow> real" where
  "Dot p q = X p * X q + Y p * Y q + Z p * Z q"

definition Cross :: "P3 \<Rightarrow> P3 \<Rightarrow> P3" where
  "Cross p q = \<lparr>X = Y p * Z q - Z p * Y q,
                Y = Z p * X q - X p * Z q,
                Z = X p * Y q - Y p * X q\<rparr>"

record R3 =
  At :: P3
  Dir :: P3

record T3 =
  A :: P3
  B :: P3
  C :: P3

definition normal :: "T3 \<Rightarrow> P3" where
  "normal t3 = (let e1 = Sub (B t3) (A t3); e2 = Sub (C t3) (A t3) in Cross e1 e2)"

section \<open>Triangle intersection\<close>

text \<open>
  \<open>T3.IntersectUV\<close> of the package: the edges are taken relative to the vertex \<open>C\<close>.
\<close>

definition IntersectUV :: "T3 \<Rightarrow> R3 \<Rightarrow> bool \<times> real \<times> real \<times> P3" where
  "IntersectUV t3 r =
    (let e1 = Sub (A t3) (C t3);
         e2 = Sub (B t3) (C t3);
         P = Cross (Dir r) e2;
         det = Dot P e1
     in if \<bar>det\<bar> < Epsilon then (False, 0, 0, Origin)
        else
          let invDet = 1 / det;
              T = Sub (R3.At r) (C t3);
              u = Dot T P * invDet
          in if u < 0 \<or> u > 1 then (False, 0, 0, Origin)
             else
               let Q = Cross T e1;
                   v = Dot (Dir r) Q * invDet
               in if v < 0 \<or> u + v > 1 then (False, 0, 0, Origin)
                  else
                    let t = Dot e2 Q * invDet
                    in if t > Epsilon
                       then (True, u, v, Add (Add (C t3) (Scale e1 u)) (Scale e2 v))
                       else (False, 0, 0, Origin))"

text \<open>
  \<open>T3.IntersectUV\<close> of the earlier single-file program (\<open>rt/main.go\<close>): the same test
  with the edges taken relative to the vertex \<open>A\<close>.
\<close>

definition IntersectUV_A :: "T3 \<Rightarrow> R3 \<Rightarrow> bool \<times> real \<times> real \<times> P3" where
  "IntersectUV_A t3 r =
    (let e1 = Sub (B t3) (A t3);
         e2 = Sub (C t3) (A t3);
         P = Cross (Dir r) e2;
         det = Dot P e1
     in if \<bar>det\<bar> < Epsilon then (False, 0, 0, Origin)
        else
          let invDet = 1 / det;
              T = Sub (R3.At r) (A t3);
              u = Dot T P * invDet
          in if u < 0 \<or> u > 1 then (False, 0, 0, Origin)
             else
               let Q = Cross T e1;
                   v = Dot (Dir r) Q * invDet
               in if v < 0 \<or> u + v > 1 then (False, 0, 0, Origin)
                  else
                    let t = Dot e2 Q * invDet
                    in if t > Epsilon
                       then (True, u, v, Add (Add (A t3) (Scale e1 u)) (Scale e2 v))
                       else (False, 0, 0, Origin))"


section \<open>Colours, textures and hits\<close>

text \<open>
  A panic of the Go runtime or of the package is an error value carrying its message.
\<close>

datatype error = Panic string

text \<open>
  \<open>color.Color\<close> is an interface with the one method \<open>RGBA()\<close>. The package builds
  \<open>color.NRGBA\<close> values itself; a texture may hold any other colour, which is kept as the
  four values its \<open>RGBA()\<close> returns.
\<close>

datatype colour =
    NRGBA "8 word" "8 word" "8 word" "8 word"
  | OtherColour "32 word" "32 word" "32 word" "32 word"

text \<open>\<open>color.NRGBA.RGBA\<close> of the standard library: alpha-premultiplied 16-bit channels.\<close>

definition premultiply :: "8 word \<Rightarrow> 8 word \<Rightarrow> 32 word" where
  "premultiply ch alpha =
     (let r = (ucast ch :: 32 word);
          r = or r (push_bit 8 r);
          r = r * ucast alpha;
          r = r div 255
      in r)"

fun RGBA :: "colour \<Rightarrow> 32 word \<times> 32 word \<times> 32 word \<times> 32 word" where
  "RGBA (NRGBA cr cg cb ca) =
     (premultiply cr ca, premultiply cg ca, premultiply cb ca,
      (let a = (ucast ca :: 32 word) in or a (push_bit 8 a)))"
| "RGBA (OtherColour r g b a) = (r, g, b, a)"

text \<open>
  The conversions \<open>int(f)\<close> and \<open>uint8(f)\<close> of a \<open>float64\<close> discard the fraction
  (truncation towards zero). Go leaves the result implementation-dependent when the
  truncated value does not fit the integer type; \<open>uint8_of_float64\<close> keeps the low eight
  bits there, as the amd64 compiler does.
\<close>

definition int_of_float64 :: "real \<Rightarrow> int" where
  "int_of_float64 f = (if 0 \<le> f then \<lfloor>f\<rfloor> else \<lceil>f\<rceil>)"

definition uint8_of_float64 :: "real \<Rightarrow> 8 word" where
  "uint8_of_float64 f = word_of_int (int_of_float64 f)"

text \<open>
  \<open>image.Image\<close>, as far as the package reads it: the bounds and the colour at a pixel.
\<close>

record Rectangle =
  MinX :: int
  MinY :: int
  MaxX :: int
  MaxY :: int

record Image =
  Bounds :: Rectangle
  At :: "int \<Rightarrow> int \<Rightarrow> colour"

text \<open>A \<open>Hit\<close>; its colour is an interface value, \<open>None\<close> is \<open>nil\<close>.\<close>

record Hit =
  At :: P3
  Normal :: P3
  Colour :: "colour option"

definition Hit_zero :: Hit where
  "Hit_zero = \<lparr>Hit.At = Origin, Normal = Origin, Colour = None\<rparr>"

definition T3_Intersect :: "T3 \<Rightarrow> R3 \<Rightarrow> bool \<times> Hit \<times> int" where
  "T3_Intersect t3 r =
     (case IntersectUV t3 r of
        (hit, _, _, p) \<Rightarrow>
          if \<not> hit then (False, Hit_zero, 1)
          else (True, \<lparr>Hit.At = p, Normal = normal t3,
                       Colour = Some (NRGBA 128 0 0 255)\<rparr>, 1))"

section \<open>Kites\<close>

text \<open>
  Interface values other than the colour of a \<open>Hit\<close> are taken to be present: the
  texture of a kite and the items of a composite are never \<open>nil\<close>.
\<close>

record Kite3 =
  TA :: T3
  TB :: T3
  Image :: Image

definition NewKite3 :: "P3 \<Rightarrow> P3 \<Rightarrow> P3 \<Rightarrow> Image \<Rightarrow> Kite3" where
  "NewKite3 a b c img =
     (let CA = Sub a c;
          CB = Sub b c;
          C2 = Add (Add c CA) CB
      in \<lparr>TA = \<lparr>A = a, B = b, C = c\<rparr>, TB = \<lparr>A = a, B = b, C = C2\<rparr>, Image = img\<rparr>)"

text \<open>The closure \<open>uvToColor\<close> of \<open>Kite3.Intersect\<close>, with the bounds it captures.\<close>

definition uvToColor :: "Image \<Rightarrow> real \<Rightarrow> real \<Rightarrow> colour" where
  "uvToColor img u v =
     (let bounds = Bounds img;
          w = real_of_int (MaxX bounds - MinX bounds);
          h = real_of_int (MaxY bounds - MinY bounds);
          x = MinX bounds + int_of_float64 (w * u);
          y = MinY bounds + int_of_float64 (h * v)
      in Image.At img x y)"

definition Kite3_Intersect :: "Kite3 \<Rightarrow> R3 \<Rightarrow> bool \<times> Hit \<times> int" where
  "Kite3_Intersect k3 r =
     (case IntersectUV (TA k3) r of
        (hit, u, v, p) \<Rightarrow>
          if hit
          then (hit, \<lparr>Hit.At = p, Normal = normal (TA k3),
                      Colour = Some (uvToColor (Image k3) u v)\<rparr>, 1)
          else
            (case IntersectUV (TB k3) r of
               (hit, u, v, p) \<Rightarrow>
                 (case (1 - v, 1 - u) of
                    (u, v) \<Rightarrow>
                      if hit
                      then (hit, \<lparr>Hit.At = p, Normal = normal (TB k3),
                                  Colour = Some (uvToColor (Image k3) u v)\<rparr>, 2)
                      else (False, Hit_zero, 2))))"

section \<open>The composite scene graph\<close>

text \<open>
  The types that implement \<open>Item\<close>: a triangle, a kite, and a \<open>CompositeItem\<close> (the scene,
  a torus and a parallelepiped embed one), which is its slice of children; \<open>None\<close> is the
  \<open>nil\<close> slice of a composite nothing was added to.
\<close>

datatype Item =
    ItemT3 T3
  | ItemKite3 Kite3
  | ItemComposite "Item list option"

text \<open>
  The first loop of \<open>CompositeItem.Intersect\<close>, over the children's answers in order: a
  child that panics ends the call.
\<close>

fun test_children ::
  "(error + (bool \<times> Hit \<times> int)) list \<Rightarrow> int \<Rightarrow> Hit list \<Rightarrow> error + (int \<times> Hit list)" where
  "test_children [] totalTests hits = Inr (totalTests, hits)"
| "test_children (Inl e # rest) totalTests hits = Inl e"
| "test_children (Inr (intersects, h, numTests) # rest) totalTests hits =
     test_children rest (totalTests + numTests) (if intersects then hits @ [h] else hits)"

text \<open>The second loop: the nearest hit, by the length of the position vector.\<close>

fun nearest :: "Hit list \<Rightarrow> Hit \<Rightarrow> Hit" where
  "nearest [] nearestHit = nearestHit"
| "nearest (h # rest) nearestHit =
     nearest rest (if Len (Hit.At h) < Len (Hit.At nearestHit) then h else nearestHit)"

fun Item_Intersect :: "Item \<Rightarrow> R3 \<Rightarrow> error + (bool \<times> Hit \<times> int)" where
  "Item_Intersect (ItemT3 t3) ray = Inr (T3_Intersect t3 ray)"
| "Item_Intersect (ItemKite3 k3) ray = Inr (Kite3_Intersect k3 ray)"
| "Item_Intersect (ItemComposite None) ray = Inl (Panic ''Null children'')"
| "Item_Intersect (ItemComposite (Some cs)) ray =
     (case test_children (map (\<lambda>c. Item_Intersect c ray) cs) 0 [] of
        Inl e \<Rightarrow> Inl e
      | Inr (totalTests, hits) \<Rightarrow>
          if length hits = 0 then Inr (False, Hit_zero, totalTests)
          else Inr (True, nearest hits (hits ! 0), totalTests))"

definition CompositeItem_Intersect ::
  "Item list option \<Rightarrow> R3 \<Rightarrow> error + (bool \<times> Hit \<times> int)" where
  "CompositeItem_Intersect children ray = Item_Intersect (ItemComposite children) ray"

definition CompositeItem_AddItem :: "Item list option \<Rightarrow> Item \<Rightarrow> Item list option" where
  "CompositeItem_AddItem children i =
     (case children of None \<Rightarrow> Some [i] | Some cs \<Rightarrow> Some (cs @ [i]))"

section \<open>The scene\<close>

record Light =
  At :: P3
  Colour :: colour

record Scene =
  children :: "Item list option"
  viewerDist :: real
  screenDist :: real
  lights :: "Light list"

definition New :: "real \<Rightarrow> real \<Rightarrow> Scene" where
  "New vd sd = \<lparr>children = None, viewerDist = vd, screenDist = sd, lights = []\<rparr>"

definition AddItem :: "Scene \<Rightarrow> Item \<Rightarrow> Scene" where
  "AddItem s i = s\<lparr>children := CompositeItem_AddItem (children s) i\<rparr>"

definition AddLight :: "Scene \<Rightarrow> Light \<Rightarrow> Scene" where
  "AddLight s l = s\<lparr>lights := lights s @ [l]\<rparr>"

text \<open>The loop of \<open>illumination\<close> over the lights.\<close>

fun add_incidence :: "Hit \<Rightarrow> Light list \<Rightarrow> real \<Rightarrow> real" where
  "add_incidence hit [] incidence = incidence"
| "add_incidence hit (light # rest) incidence =
     (let vlight = Sub (Hit.At hit) (Light.At light)
      in add_incidence hit rest
           (incidence + \<bar>Dot vlight (Normal hit) / Len vlight / Len (Normal hit)\<bar>))"

definition toUint :: "real \<Rightarrow> 32 word \<Rightarrow> 8 word" where
  "toUint incidence v = uint8_of_float64 (real (unat v) * incidence / 65535 * 256)"

definition illumination :: "Scene \<Rightarrow> Hit \<Rightarrow> error + colour" where
  "illumination s hit =
     (case Hit.Colour hit of
        None \<Rightarrow> Inl (Panic ''invalid memory address or nil pointer dereference'')
      | Some c \<Rightarrow>
          (case RGBA c of
             (r, g, b, _) \<Rightarrow>
               let incidence = add_incidence hit (lights s) 0;
                   incidence = incidence / real (length (lights s))
               in Inr (NRGBA (toUint incidence r) (toUint incidence g)
                             (toUint incidence b) 255)))"

definition ambient :: "Scene \<Rightarrow> R3 \<Rightarrow> colour" where
  "ambient s r = NRGBA 0 0 0 255"

definition Render :: "Scene \<Rightarrow> real \<Rightarrow> real \<Rightarrow> error + (colour \<times> int)" where
  "Render s x y =
     (let ray = \<lparr>R3.At = \<lparr>X = 0, Y = 0, Z = viewerDist s\<rparr>,
                 Dir = \<lparr>X = x / screenDist s, Y = y / screenDist s, Z = 1\<rparr>\<rparr>
      in case CompositeItem_Intersect (children s) ray of
           Inl e \<Rightarrow> Inl e
         | Inr (intersects, h, numTests) \<Rightarrow>
             if \<not> intersects then Inr (ambient s ray, numTests)
             else (case illumination s h of
                     Inl e \<Rightarrow> Inl e
                   | Inr c \<Rightarrow> Inr (c, numTests)))"


section \<open>Procedural surfaces\<close>

text \<open>
  The start of \<open>Circle.Points\<close>: the helper vector \<open>v\<close> and the in-plane radius vectors
  \<open>rx\<close> and \<open>ry\<close> built from it.
\<close>

record Circle =
  centre :: P3
  axis :: P3
  radius :: real

definition Points_v :: "Circle \<Rightarrow> P3" where
  "Points_v c =
     (let v = \<lparr>X = 1, Y = 0, Z = 0\<rparr>
      in if Dot v (axis c) < Epsilon then \<lparr>X = 0, Y = 1, Z = 0\<rparr> else v)"

definition Points_rx :: "Circle \<Rightarrow> P3" where
  "Points_rx c = Scale (Normalise (Cross (axis c) (Points_v c))) (radius c)"

definition Points_ry :: "Circle \<Rightarrow> P3" where
  "Points_ry c = Scale (Normalise (Cross (axis c) (Points_rx c))) (radius c)"

text \<open>
  \<open>gridToKites\<close>. The inner loop runs over the indices \<open>j\<close> of \<open>row\<close>, the outer loop over
  the indices \<open>i\<close> of \<open>grid\<close>; an index out of range and a remainder by zero panic.
\<close>

fun row_kites ::
  "P3 list \<Rightarrow> P3 list \<Rightarrow> nat \<Rightarrow> Image \<Rightarrow> nat list \<Rightarrow> Item list \<Rightarrow> error + Item list" where
  "row_kites row next numCols img [] items = Inr items"
| "row_kites row next numCols img (j # js) items =
     (if numCols = 0 then Inl (Panic ''integer divide by zero'')
      else if \<not> (j + 1) mod numCols < length next then Inl (Panic ''index out of range'')
      else if \<not> (j + 1) mod numCols < length row then Inl (Panic ''index out of range'')
      else row_kites row next numCols img js
             (items @ [ItemKite3 (NewKite3 (row ! j) (next ! ((j + 1) mod numCols))
                                           (row ! ((j + 1) mod numCols)) img)]))"

fun grid_kites ::
  "P3 list list \<Rightarrow> nat \<Rightarrow> nat \<Rightarrow> Image \<Rightarrow> nat list \<Rightarrow> Item list \<Rightarrow> error + Item list" where
  "grid_kites grid numRows numCols img [] items = Inr items"
| "grid_kites grid numRows numCols img (i # is) items =
     (let row = grid ! i;
          next = grid ! ((i + 1) mod numRows)
      in case row_kites row next numCols img [0..<length row] items of
           Inl e \<Rightarrow> Inl e
         | Inr items' \<Rightarrow> grid_kites grid numRows numCols img is items')"

definition gridToKites :: "P3 list list \<Rightarrow> Image \<Rightarrow> error + Item list" where
  "gridToKites grid img =
     (let numRows = length grid
      in if grid = [] then Inl (Panic ''index out of range'')
         else
           let numCols = length (grid ! 0)
           in grid_kites grid numRows numCols img [0..<length grid] [])"


section \<open>The quantities of the triangle test\<close>

text \<open>
  The determinant, the two barycentric parameters and the ray parameter that
  \<open>IntersectUV\<close> computes, with the edges relative to \<open>C\<close> as in the package.
\<close>

definition uv_det :: "T3 \<Rightarrow> R3 \<Rightarrow> real" where
  "uv_det t3 r = Dot (Cross (Dir r) (Sub (B t3) (C t3))) (Sub (A t3) (C t3))"

definition uv_u :: "T3 \<Rightarrow> R3 \<Rightarrow> real" where
  "uv_u t3 r =
     Dot (Sub (R3.At r) (C t3)) (Cross (Dir r) (Sub (B t3) (C t3))) * (1 / uv_det t3 r)"

definition uv_v :: "T3 \<Rightarrow> R3 \<Rightarrow> real" where
  "uv_v t3 r =
     Dot (Dir r) (Cross (Sub (R3.At r) (C t3)) (Sub (A t3) (C t3))) * (1 / uv_det t3 r)"

definition uv_t :: "T3 \<Rightarrow> R3 \<Rightarrow> real" where
  "uv_t t3 r =
     Dot (Sub (B t3) (C t3)) (Cross (Sub (R3.At r) (C t3)) (Sub (A t3) (C t3)))
       * (1 / uv_det t3 r)"

text \<open>The same quantities with the edges relative to \<open>A\<close>, as in the earlier program.\<close>

definition uvA_det :: "T3 \<Rightarrow> R3 \<Rightarrow> real" where
  "uvA_det t3 r = Dot (Cross (Dir r) (Sub (C t3) (A t3))) (Sub (B t3) (A t3))"

definition uvA_u :: "T3 \<Rightarrow> R3 \<Rightarrow> real" where
  "uvA_u t3 r =
     Dot (Sub (R3.At r) (A t3)) (Cross (Dir r) (Sub (C t3) (A t3))) * (1 / uvA_det t3 r)"

definition uvA_v :: "T3 \<Rightarrow> R3 \<Rightarrow> real" where
  "uvA_v t3 r =
     Dot (Dir r) (Cross (Sub (R3.At r) (A t3)) (Sub (B t3) (A t3))) * (1 / uvA_det t3 r)"

definition uvA_t :: "T3 \<Rightarrow> R3 \<Rightarrow> real" where
  "uvA_t t3 r =
     Dot (Sub (C t3) (A t3)) (Cross (Sub (R3.At r) (A t3)) (Sub (B t3) (A t3)))
       * (1 / uvA_det t3 r)"

section \<open>The answers of a composite's children\<close>

text \<open>
  Of the answers \<open>(hit, Hit, testCount)\<close> the children give, in order: the hits of those
  that report one, and the sum of the test counts.
\<close>

definition hits_of :: "(bool \<times> Hit \<times> int) list \<Rightarrow> Hit list" where
  "hits_of rs = map (\<lambda>r. fst (snd r)) (filter fst rs)"

definition tests_of :: "(bool \<times> Hit \<times> int) list \<Rightarrow> int" where
  "tests_of rs = sum_list (map (\<lambda>r. snd (snd r)) rs)"

section \<open>The incidence of the lights\<close>

text \<open>
  The incidence term of one light, \<open>|dot(normal, lightVec)| / (|normal| |lightVec|)\<close>, and
  its average over the lights, with \<open>lightVec\<close> the vector from the hit to the light.
\<close>

definition incidence_term :: "P3 \<Rightarrow> P3 \<Rightarrow> real" where
  "incidence_term n lightVec = \<bar>Dot n lightVec\<bar> / (Len n * Len lightVec)"

definition average_incidence :: "Hit \<Rightarrow> Light list \<Rightarrow> real" where
  "average_incidence hit ls =
     (\<Sum>light\<leftarrow>ls. incidence_term (Normal hit) (Sub (Light.At light) (Hit.At hit)))
       / real (length ls)"

section \<open>The cells of a grid\<close>

text \<open>
  The kite of the grid cell \<open>(i, j)\<close> of a \<open>numMajor\<close> by \<open>numMinor\<close> grid: its corners are
  \<open>grid[i][j]\<close>, \<open>grid[(i+1) mod numMajor][(j+1) mod numMinor]\<close> and
  \<open>grid[i][(j+1) mod numMinor]\<close>.
\<close>

definition cell_kite :: "P3 list list \<Rightarrow> nat \<Rightarrow> nat \<Rightarrow> Image \<Rightarrow> nat \<Rightarrow> nat \<Rightarrow> Item" where
  "cell_kite grid numMajor numMinor img i j =
     ItemKite3 (NewKite3 (grid ! i ! j)
                         (grid ! ((i + 1) mod numMajor) ! ((j + 1) mod numMinor))
                         (grid ! i ! ((j + 1) mod numMinor)) img)"

section \<open>Example inputs\<close>

text \<open>
  The triangle of the spec's end-to-end scenario and a ray along \<open>+Z\<close> through its
  interior.
\<close>

definition example_triangle :: T3 where
  "example_triangle =
     \<lparr>A = \<lparr>X = 0, Y = 0, Z = 10\<rparr>, B = \<lparr>X = 1, Y = 0, Z = 10\<rparr>, C = \<lparr>X = 0, Y = 1, Z = 10\<rparr>\<rparr>"

definition example_ray :: R3 where
  "example_ray = \<lparr>R3.At = \<lparr>X = 1 / 4, Y = 1 / 4, Z = 0\<rparr>, Dir = \<lparr>X = 0, Y = 0, Z = 1\<rparr>\<rparr>"

text \<open>
  A 10 by 7 texture whose pixel colour names its coordinates, the kite on the example
  triangle, and rays along \<open>+Z\<close> that hit its second triangle and that miss it.
\<close>

definition example_image :: Image where
  "example_image =
     \<lparr>Bounds = \<lparr>MinX = 0, MinY = 0, MaxX = 10, MaxY = 7\<rparr>,
      Image.At = (\<lambda>x y. NRGBA (word_of_int x) (word_of_int y) 0 255)\<rparr>"

definition example_kite :: Kite3 where
  "example_kite = NewKite3 (A example_triangle) (B example_triangle) (C example_triangle)
                    example_image"

definition example_ray_TB :: R3 where
  "example_ray_TB = \<lparr>R3.At = \<lparr>X = 1 / 2, Y = - 1 / 4, Z = 0\<rparr>, Dir = \<lparr>X = 0, Y = 0, Z = 1\<rparr>\<rparr>"

definition example_ray_miss :: R3 where
  "example_ray_miss = \<lparr>R3.At = \<lparr>X = 5, Y = 5, Z = 0\<rparr>, Dir = \<lparr>X = 0, Y = 0, Z = 1\<rparr>\<rparr>"

text \<open>
  The example triangle moved to depth \<open>z\<close>, and the hit the example ray makes on it.
\<close>

definition example_triangle_at :: "real \<Rightarrow> T3" where
  "example_triangle_at z =
     \<lparr>A = \<lparr>X = 0, Y = 0, Z = z\<rparr>, B = \<lparr>X = 1, Y = 0, Z = z\<rparr>, C = \<lparr>X = 0, Y = 1, Z = z\<rparr>\<rparr>"

definition example_hit_at :: "real \<Rightarrow> Hit" where
  "example_hit_at z =
     \<lparr>Hit.At = \<lparr>X = 1 / 4, Y = 1 / 4, Z = z\<rparr>, Normal = \<lparr>X = 0, Y = 0, Z = 1\<rparr>,
      Colour = Some (NRGBA 128 0 0 255)\<rparr>"

text \<open>
  The scene of the spec's end-to-end scenario: the example triangle, one light at the
  origin, viewer distance \<open>-5\<close>, screen distance \<open>1\<close>.
\<close>

definition example_scene :: Scene where
  "example_scene =
     AddLight (AddItem (New (- 5) 1) (ItemT3 example_triangle))
       \<lparr>Light.At = \<lparr>X = 0, Y = 0, Z = 0\<rparr>, Colour = NRGBA 255 255 255 255\<rparr>"

text \<open>
  A hit facing \<open>+Z\<close> with a light straight behind it and a light in its plane.
\<close>

definition example_lights :: "Light list" where
  "example_lights =
     [\<lparr>Light.At = \<lparr>X = 0, Y = 0, Z = 11\<rparr>, Colour = NRGBA 255 255 255 255\<rparr>,
      \<lparr>Light.At = \<lparr>X = 1, Y = 0, Z = 10\<rparr>, Colour = NRGBA 255 255 255 255\<rparr>]"

definition example_lit_scene :: Scene where
  "example_lit_scene = foldl AddLight (New (- 5) 1) example_lights"

definition example_lit_hit :: Hit where
  "example_lit_hit =
     \<lparr>Hit.At = \<lparr>X = 0, Y = 0, Z = 10\<rparr>, Normal = \<lparr>X = 0, Y = 0, Z = 1\<rparr>,
      Colour = Some (NRGBA 128 0 0 255)\<rparr>"

text \<open>
  An opaque white hit facing \<open>+Z\<close>, and a scene whose one light is straight in front of
  it.
\<close>

definition example_white_hit :: Hit where
  "example_white_hit =
     \<lparr>Hit.At = \<lparr>X = 0, Y = 0, Z = 10\<rparr>, Normal = \<lparr>X = 0, Y = 0, Z = 1\<rparr>,
      Colour = Some (NRGBA 255 255 255 255)\<rparr>"

definition example_white_scene :: Scene where
  "example_white_scene =
     AddLight (New (- 5) 1)
       \<lparr>Light.At = \<lparr>X = 0, Y = 0, Z = 11\<rparr>, Colour = NRGBA 255 255 255 255\<rparr>"

text \<open>
  Circles whose axis is the first and the second candidate helper vector, and a 2 by 2
  grid of points.
\<close>

definition example_circle :: Circle where
  "example_circle = \<lparr>centre = Origin, axis = \<lparr>X = 1, Y = 0, Z = 0\<rparr>, radius = 1\<rparr>"

definition example_circle_y :: Circle where
  "example_circle_y = \<lparr>centre = Origin, axis = \<lparr>X = 0, Y = 1, Z = 0\<rparr>, radius = 1\<rparr>"

definition example_grid :: "P3 list list" where
  "example_grid =
     [[\<lparr>X = 0, Y = 0, Z = 0\<rparr>, \<lparr>X = 0, Y = 1, Z = 0\<rparr>],
      [\<lparr>X = 1, Y = 0, Z = 0\<rparr>, \<lparr>X = 1, Y = 1, Z = 0\<rparr>]]"

section \<open>Triangle intersection: the outcomes\<close>

lemmas vec_defs = Sub_def Cross_def Dot_def Add_def Scale_def Epsilon_def Origin_def

lemma IntersectUV_unfold:
  "IntersectUV t3 r =
     (if \<bar>uv_det t3 r\<bar> < Epsilon \<or> uv_u t3 r < 0 \<or> uv_u t3 r > 1 \<or> uv_v t3 r < 0
         \<or> uv_u t3 r + uv_v t3 r > 1 \<or> uv_t t3 r \<le> Epsilon
      then (False, 0, 0, Origin)
      else (True, uv_u t3 r, uv_v t3 r,
            Add (Add (C t3) (Scale (Sub (A t3) (C t3)) (uv_u t3 r)))
                (Scale (Sub (B t3) (C t3)) (uv_v t3 r))))"
  unfolding IntersectUV_def uv_det_def uv_u_def uv_v_def uv_t_def Let_def
  by (simp add: not_less not_le)

lemma IntersectUV_A_unfold:
  "IntersectUV_A t3 r =
     (if \<bar>uvA_det t3 r\<bar> < Epsilon \<or> uvA_u t3 r < 0 \<or> uvA_u t3 r > 1 \<or> uvA_v t3 r < 0
         \<or> uvA_u t3 r + uvA_v t3 r > 1 \<or> uvA_t t3 r \<le> Epsilon
      then (False, 0, 0, Origin)
      else (True, uvA_u t3 r, uvA_v t3 r,
            Add (Add (A t3) (Scale (Sub (B t3) (A t3)) (uvA_u t3 r)))
                (Scale (Sub (C t3) (A t3)) (uvA_v t3 r))))"
  unfolding IntersectUV_A_def uvA_det_def uvA_u_def uvA_v_def uvA_t_def Let_def
  by (simp add: not_less not_le)

lemma example_hit:
  "IntersectUV example_triangle example_ray
     = (True, 1 / 2, 1 / 4, \<lparr>X = 1 / 4, Y = 1 / 4, Z = 10\<rparr>)"
  by (simp add: IntersectUV_def Let_def example_triangle_def example_ray_def vec_defs)

text \<open>
  C1 (as amended). \<open>IntersectUV\<close> reports no hit when \<open>|det| < 1e-6\<close>, when \<open>u < 0\<close> or
  \<open>u > 1\<close>, when \<open>v < 0\<close> or \<open>u + v > 1\<close>, or when \<open>t \<le> 1e-6\<close>, where \<open>det\<close>, \<open>u\<close>, \<open>v\<close> and
  \<open>t\<close> are computed from the edges \<open>A - C\<close> and \<open>B - C\<close>. Otherwise it reports a hit with
  these \<open>u\<close> and \<open>v\<close> at the position \<open>C + u (A - C) + v (B - C)\<close>. Every reported hit has
  \<open>u \<ge> 0\<close>, \<open>v \<ge> 0\<close> and \<open>u + v \<le> 1\<close>.
\<close>

theorem IntersectUV_outcomes:
  "IntersectUV t3 r =
     (if \<bar>uv_det t3 r\<bar> < Epsilon \<or> uv_u t3 r < 0 \<or> uv_u t3 r > 1 \<or> uv_v t3 r < 0
         \<or> uv_u t3 r + uv_v t3 r > 1 \<or> uv_t t3 r \<le> Epsilon
      then (False, 0, 0, Origin)
      else (True, uv_u t3 r, uv_v t3 r,
            Add (Add (C t3) (Scale (Sub (A t3) (C t3)) (uv_u t3 r)))
                (Scale (Sub (B t3) (C t3)) (uv_v t3 r))))
   \<and> (\<forall>u v p. IntersectUV t3 r = (True, u, v, p) \<longrightarrow> 0 \<le> u \<and> 0 \<le> v \<and> u + v \<le> 1)"
  by (auto simp: IntersectUV_unfold)

theorem IntersectUV_outcomes_witness:
  "IntersectUV example_triangle example_ray
     = (True, 1 / 2, 1 / 4, \<lparr>X = 1 / 4, Y = 1 / 4, Z = 10\<rparr>)
   \<and> (0::real) \<le> 1 / 2 \<and> (0::real) \<le> 1 / 4 \<and> (1 / 2 + 1 / 4 :: real) \<le> 1"
  using IntersectUV_outcomes [of example_triangle example_ray]
  by (simp add: uv_det_def uv_u_def uv_v_def uv_t_def example_triangle_def example_ray_def
      vec_defs)

text \<open>
  C1 as stated fails: on the example, the hit is reported with \<open>u = 1/2\<close>, \<open>v = 1/4\<close> at
  \<open>(1/4, 1/4, 10)\<close>, which is not \<open>A + u (B - A) + v (C - A) = (1/2, 1/4, 10)\<close>.
\<close>

theorem IntersectUV_position_counterexample:
  "IntersectUV example_triangle example_ray
     = (True, 1 / 2, 1 / 4, \<lparr>X = 1 / 4, Y = 1 / 4, Z = 10\<rparr>)
   \<and> \<lparr>X = 1 / 4, Y = 1 / 4, Z = 10\<rparr>
       \<noteq> Add (Add (A example_triangle)
                   (Scale (Sub (B example_triangle) (A example_triangle)) (1 / 2)))
              (Scale (Sub (C example_triangle) (A example_triangle)) (1 / 4))"
  by (simp add: IntersectUV_def Let_def example_triangle_def example_ray_def vec_defs)

section \<open>Triangle intersection: the two vertex orders\<close>

lemma uv_det_eq: "uv_det t3 r = uvA_det t3 r"
  unfolding uv_det_def uvA_det_def Dot_def Cross_def Sub_def
  by (simp add: algebra_simps)

lemma uv_t_eq: "uv_t t3 r = uvA_t t3 r"
  unfolding uv_t_def uvA_t_def uv_det_eq
  unfolding Dot_def Cross_def Sub_def
  by (simp add: algebra_simps)

lemma uv_v_eq: "uv_v t3 r = uvA_u t3 r"
  unfolding uv_v_def uvA_u_def uv_det_eq
  unfolding Dot_def Cross_def Sub_def
  by (simp add: algebra_simps)

lemma uv_u_eq:
  assumes "uvA_det t3 r \<noteq> 0"
  shows "uv_u t3 r = 1 - uvA_u t3 r - uvA_v t3 r"
proof -
  have num: "Dot (Sub (R3.At r) (C t3)) (Cross (Dir r) (Sub (B t3) (C t3)))
      = uvA_det t3 r - Dot (Sub (R3.At r) (A t3)) (Cross (Dir r) (Sub (C t3) (A t3)))
          - Dot (Dir r) (Cross (Sub (R3.At r) (A t3)) (Sub (B t3) (A t3)))"
    unfolding uvA_det_def Dot_def Cross_def Sub_def
    by (simp add: algebra_simps)
  show ?thesis
    unfolding uv_u_def uvA_u_def uvA_v_def uv_det_eq num
    using assms by (simp add: field_simps)
qed

lemma hit_point_eq:
  assumes "uC = 1 - uA - vA" and "vC = uA"
  shows "Add (Add (C t3) (Scale (Sub (A t3) (C t3)) uC)) (Scale (Sub (B t3) (C t3)) vC)
       = Add (Add (A t3) (Scale (Sub (B t3) (A t3)) uA)) (Scale (Sub (C t3) (A t3)) vA)"
  unfolding Add_def Scale_def Sub_def assms
  by (simp add: algebra_simps)

text \<open>
  C9. The test with the edges relative to \<open>C\<close> and the test with the edges relative to
  \<open>A\<close> accept the same rays and report the same position (the barycentric parameters
  they report differ: \<open>u\<^sub>C = 1 - u\<^sub>A - v\<^sub>A\<close> and \<open>v\<^sub>C = u\<^sub>A\<close>).
\<close>

theorem IntersectUV_variants_agree:
  "fst (IntersectUV t3 r) = fst (IntersectUV_A t3 r)
   \<and> snd (snd (snd (IntersectUV t3 r))) = snd (snd (snd (IntersectUV_A t3 r)))"
proof (cases "\<bar>uvA_det t3 r\<bar> < Epsilon")
  case True
  then show ?thesis
    by (simp add: IntersectUV_unfold IntersectUV_A_unfold uv_det_eq)
next
  case False
  then have nz: "uvA_det t3 r \<noteq> 0"
    by (auto simp: Epsilon_def)
  have u: "uv_u t3 r = 1 - uvA_u t3 r - uvA_v t3 r"
    using nz by (rule uv_u_eq)
  have v: "uv_v t3 r = uvA_u t3 r"
    by (rule uv_v_eq)
  have reject: "(uv_u t3 r < 0 \<or> uv_u t3 r > 1 \<or> uv_v t3 r < 0 \<or> uv_u t3 r + uv_v t3 r > 1)
      = (uvA_u t3 r < 0 \<or> uvA_u t3 r > 1 \<or> uvA_v t3 r < 0 \<or> uvA_u t3 r + uvA_v t3 r > 1)"
    unfolding u v by arith
  show ?thesis
  proof (cases "uvA_u t3 r < 0 \<or> uvA_u t3 r > 1 \<or> uvA_v t3 r < 0
                  \<or> uvA_u t3 r + uvA_v t3 r > 1 \<or> uvA_t t3 r \<le> Epsilon")
    case True
    then have "uv_u t3 r < 0 \<or> uv_u t3 r > 1 \<or> uv_v t3 r < 0
                  \<or> uv_u t3 r + uv_v t3 r > 1 \<or> uv_t t3 r \<le> Epsilon"
      using reject by (auto simp: uv_t_eq)
    with True show ?thesis
      by (simp add: IntersectUV_unfold IntersectUV_A_unfold)
  next
    case accA: False
    then have accC: "\<not> (uv_u t3 r < 0 \<or> uv_u t3 r > 1 \<or> uv_v t3 r < 0
                  \<or> uv_u t3 r + uv_v t3 r > 1 \<or> uv_t t3 r \<le> Epsilon)"
      using reject by (auto simp: uv_t_eq)
    have detC: "\<not> \<bar>uv_det t3 r\<bar> < Epsilon"
      using False by (simp add: uv_det_eq)
    have "IntersectUV t3 r = (True, uv_u t3 r, uv_v t3 r,
            Add (Add (C t3) (Scale (Sub (A t3) (C t3)) (uv_u t3 r)))
                (Scale (Sub (B t3) (C t3)) (uv_v t3 r)))"
      using accC detC by (subst IntersectUV_unfold) auto
    moreover have "IntersectUV_A t3 r = (True, uvA_u t3 r, uvA_v t3 r,
            Add (Add (A t3) (Scale (Sub (B t3) (A t3)) (uvA_u t3 r)))
                (Scale (Sub (C t3) (A t3)) (uvA_v t3 r)))"
      using accA False by (subst IntersectUV_A_unfold) auto
    ultimately show ?thesis
      using hit_point_eq [OF u v] by simp
  qed
qed

section \<open>Kites: order of the tests and the sampled pixel\<close>

lemma example_kite_TA: "TA example_kite = example_triangle"
  by (simp add: example_kite_def NewKite3_def Let_def example_triangle_def)

lemma example_kite_TB:
  "TB example_kite = \<lparr>A = \<lparr>X = 0, Y = 0, Z = 10\<rparr>, B = \<lparr>X = 1, Y = 0, Z = 10\<rparr>,
                       C = \<lparr>X = 1, Y = - 1, Z = 10\<rparr>\<rparr>"
  by (simp add: example_kite_def NewKite3_def Let_def example_triangle_def vec_defs)

lemma example_kite_Image: "Image example_kite = example_image"
  by (simp add: example_kite_def NewKite3_def Let_def)

lemma example_TB_TA_miss:
  "IntersectUV example_triangle example_ray_TB = (False, 0, 0, Origin)"
  by (simp add: IntersectUV_def Let_def example_triangle_def example_ray_TB_def vec_defs)

lemma example_TB_hit:
  "IntersectUV (TB example_kite) example_ray_TB
     = (True, 1 / 2, 1 / 4, \<lparr>X = 1 / 2, Y = - 1 / 4, Z = 10\<rparr>)"
  by (simp add: example_kite_TB IntersectUV_def Let_def example_ray_TB_def vec_defs)

lemma example_miss_TA:
  "IntersectUV example_triangle example_ray_miss = (False, 0, 0, Origin)"
  by (simp add: IntersectUV_def Let_def example_triangle_def example_ray_miss_def vec_defs)

lemma example_miss_TB:
  "IntersectUV (TB example_kite) example_ray_miss = (False, 0, 0, Origin)"
  by (simp add: example_kite_TB IntersectUV_def Let_def example_ray_miss_def vec_defs)

text \<open>
  C3. A kite tests \<open>TA\<close> first. On a hit of \<open>TA\<close> with \<open>(u, v)\<close> the colour
  is the texture's at \<open>(u, v)\<close> and the test count is 1. When \<open>TA\<close> misses and \<open>TB\<close> hits
  with \<open>(u', v')\<close>, the colour is the texture's at \<open>(1 - v', 1 - u')\<close> and the count is 2.
  When both miss there is no hit and the count is 2.
\<close>

theorem Kite3_Intersect_order:
  "(IntersectUV (TA k3) r = (True, u, v, p) \<longrightarrow>
      Kite3_Intersect k3 r
        = (True, \<lparr>Hit.At = p, Normal = normal (TA k3),
                   Colour = Some (uvToColor (Image k3) u v)\<rparr>, 1))
   \<and> (\<not> fst (IntersectUV (TA k3) r) \<and> IntersectUV (TB k3) r = (True, u', v', p') \<longrightarrow>
      Kite3_Intersect k3 r
        = (True, \<lparr>Hit.At = p', Normal = normal (TB k3),
                   Colour = Some (uvToColor (Image k3) (1 - v') (1 - u'))\<rparr>, 2))
   \<and> (\<not> fst (IntersectUV (TA k3) r) \<and> \<not> fst (IntersectUV (TB k3) r) \<longrightarrow>
      Kite3_Intersect k3 r = (False, Hit_zero, 2))"
  by (auto simp: Kite3_Intersect_def split: prod.splits)

lemma example_uv1: "uvToColor example_image (1 / 2) (1 / 4) = NRGBA 5 1 0 255"
  by (simp add: uvToColor_def example_image_def Let_def int_of_float64_def)

lemma example_uv2: "uvToColor example_image (3 / 4) (1 / 2) = NRGBA 7 3 0 255"
  by (simp add: uvToColor_def example_image_def Let_def int_of_float64_def)

lemma example_normal_TA: "normal example_triangle = \<lparr>X = 0, Y = 0, Z = 1\<rparr>"
  by (simp add: normal_def example_triangle_def Let_def vec_defs)

lemma example_normal_TB: "normal (TB example_kite) = \<lparr>X = 0, Y = 0, Z = - 1\<rparr>"
  by (simp add: normal_def example_kite_TB Let_def vec_defs)

theorem Kite3_Intersect_order_witness:
  "Kite3_Intersect example_kite example_ray
     = (True, \<lparr>Hit.At = \<lparr>X = 1 / 4, Y = 1 / 4, Z = 10\<rparr>, Normal = \<lparr>X = 0, Y = 0, Z = 1\<rparr>,
                Colour = Some (NRGBA 5 1 0 255)\<rparr>, 1)
   \<and> Kite3_Intersect example_kite example_ray_TB
     = (True, \<lparr>Hit.At = \<lparr>X = 1 / 2, Y = - 1 / 4, Z = 10\<rparr>, Normal = \<lparr>X = 0, Y = 0, Z = - 1\<rparr>,
                Colour = Some (NRGBA 7 3 0 255)\<rparr>, 2)
   \<and> Kite3_Intersect example_kite example_ray_miss = (False, Hit_zero, 2)"
  using
    Kite3_Intersect_order [of example_kite example_ray "1 / 2" "1 / 4"
      "\<lparr>X = 1 / 4, Y = 1 / 4, Z = 10\<rparr>"]
    Kite3_Intersect_order [of example_kite example_ray_TB _ _ _ "1 / 2" "1 / 4"
      "\<lparr>X = 1 / 2, Y = - 1 / 4, Z = 10\<rparr>"]
    Kite3_Intersect_order [of example_kite example_ray_miss]
  by (simp add: example_kite_TA example_kite_Image example_hit example_TB_TA_miss
      example_TB_hit example_miss_TA example_miss_TB example_uv1 example_uv2
      example_normal_TA example_normal_TB)




text \<open>
  Why the edges are taken relative to \<open>C\<close>: the point of \<open>TB\<close> with the parameters
  \<open>(u', v')\<close> is the point \<open>C + (1 - v') (A - C) + (1 - u') (B - C)\<close> of the plane of \<open>TA\<close>,
  so the remap continues the texture coordinates of \<open>TA\<close> over the whole kite.
\<close>

lemma NewKite3_remap:
  "Add (Add (C (TB (NewKite3 a b c img)))
            (Scale (Sub (A (TB (NewKite3 a b c img))) (C (TB (NewKite3 a b c img)))) u'))
       (Scale (Sub (B (TB (NewKite3 a b c img))) (C (TB (NewKite3 a b c img)))) v')
   = Add (Add c (Scale (Sub a c) (1 - v'))) (Scale (Sub b c) (1 - u'))"
  by (simp add: NewKite3_def Let_def Add_def Sub_def Scale_def algebra_simps)



section \<open>The composite: test counts and the nearest hit\<close>

lemma test_children_answers:
  "test_children (map Inr rs) totalTests hits
     = Inr (totalTests + tests_of rs, hits @ hits_of rs)"
proof (induction rs arbitrary: totalTests hits)
  case Nil
  then show ?case by (simp add: tests_of_def hits_of_def)
next
  case (Cons r rs)
  obtain b h n where r: "r = (b, h, n)" by (cases r) auto
  have "test_children (map Inr (r # rs)) totalTests hits
      = test_children (map Inr rs) (totalTests + n) (if b then hits @ [h] else hits)"
    by (simp add: r)
  also have "\<dots> = Inr (totalTests + n + tests_of rs, (if b then hits @ [h] else hits) @ hits_of rs)"
    by (rule Cons.IH)
  finally show ?case
    by (simp add: r tests_of_def hits_of_def)
qed

lemma nearest_least:
  "Len (Hit.At (nearest hits h0)) \<le> Len (Hit.At h0)
   \<and> (\<forall>h \<in> set hits. Len (Hit.At (nearest hits h0)) \<le> Len (Hit.At h))"
proof (induction hits arbitrary: h0)
  case Nil
  then show ?case by simp
next
  case (Cons h hits)
  let ?h1 = "if Len (Hit.At h) < Len (Hit.At h0) then h else h0"
  have IH: "Len (Hit.At (nearest hits ?h1)) \<le> Len (Hit.At ?h1)"
    "\<forall>h' \<in> set hits. Len (Hit.At (nearest hits ?h1)) \<le> Len (Hit.At h')"
    using Cons.IH [of ?h1] by blast+
  have "Len (Hit.At ?h1) \<le> Len (Hit.At h0)" "Len (Hit.At ?h1) \<le> Len (Hit.At h)"
    by auto
  with IH show ?case
    by (auto simp del: if_split intro: order_trans)
qed

lemma nearest_member: "nearest hits h0 \<in> insert h0 (set hits)"
  by (induction hits arbitrary: h0) (auto split: if_splits)

lemma Sub_Origin: "Sub p Origin = p"
  by (simp add: Sub_def Origin_def)

text \<open>
  C2 (as amended). For a composite with a non-nil list of children, all of which answer
  the ray (none panics): the test count returned is the sum of the children's counts;
  when no child reports a hit the composite reports no hit; otherwise it reports a hit
  that one of the children reported, and no child's hit is nearer to the world origin
  \<open>(0, 0, 0)\<close>.
\<close>

theorem CompositeItem_Intersect_nearest:
  assumes "map (\<lambda>c. Item_Intersect c ray) cs = map Inr rs"
  shows "(hits_of rs = [] \<longrightarrow>
            CompositeItem_Intersect (Some cs) ray = Inr (False, Hit_zero, tests_of rs))
       \<and> (hits_of rs \<noteq> [] \<longrightarrow>
            (\<exists>h. CompositeItem_Intersect (Some cs) ray = Inr (True, h, tests_of rs)
                 \<and> h \<in> set (hits_of rs)
                 \<and> (\<forall>h' \<in> set (hits_of rs).
                       Len (Sub (Hit.At h) Origin) \<le> Len (Sub (Hit.At h') Origin))))"
proof -
  have loop: "test_children (map (\<lambda>c. Item_Intersect c ray) cs) 0 []
                = Inr (tests_of rs, hits_of rs)"
    unfolding assms by (simp add: test_children_answers)
  show ?thesis
  proof (cases "hits_of rs = []")
    case True
    then show ?thesis
      by (simp add: CompositeItem_Intersect_def loop)
  next
    case False
    then have first: "hits_of rs ! 0 \<in> set (hits_of rs)"
      by simp
    let ?h = "nearest (hits_of rs) (hits_of rs ! 0)"
    have res: "CompositeItem_Intersect (Some cs) ray = Inr (True, ?h, tests_of rs)"
      using False by (simp add: CompositeItem_Intersect_def loop)
    have mem: "?h \<in> set (hits_of rs)"
      using nearest_member [of "hits_of rs" "hits_of rs ! 0"] first by auto
    have least: "\<forall>h' \<in> set (hits_of rs). Len (Hit.At ?h) \<le> Len (Hit.At h')"
      using nearest_least [of "hits_of rs" "hits_of rs ! 0"] by blast
    from False res mem least show ?thesis
      by (auto simp: Sub_Origin)
  qed
qed


lemma example_hit_at:
  assumes "1 \<le> z"
  shows "T3_Intersect (example_triangle_at z) example_ray = (True, example_hit_at z, 1)"
  using assms
  by (simp add: T3_Intersect_def IntersectUV_def normal_def Let_def example_triangle_at_def
      example_hit_at_def example_ray_def vec_defs)

lemma example_miss_at:
  "T3_Intersect (example_triangle_at z) example_ray_miss = (False, Hit_zero, 1)"
  by (simp add: T3_Intersect_def IntersectUV_def Let_def example_triangle_at_def
      example_ray_miss_def vec_defs)

lemma example_hit_at_Len:
  "Len (Sub (Hit.At (example_hit_at z)) Origin) = sqrt (1 / 8 + z * z)"
  by (simp add: example_hit_at_def Len_def Sub_def Origin_def)

theorem CompositeItem_Intersect_nearest_witness:
  "CompositeItem_Intersect
     (Some [ItemT3 (example_triangle_at 20), ItemT3 (example_triangle_at 10),
            ItemT3 (example_triangle_at 30)]) example_ray
     = Inr (True, example_hit_at 10, 3)
   \<and> CompositeItem_Intersect (Some [ItemT3 (example_triangle_at 10)]) example_ray_miss
     = Inr (False, Hit_zero, 1)"
proof
  let ?cs = "[ItemT3 (example_triangle_at 20), ItemT3 (example_triangle_at 10),
              ItemT3 (example_triangle_at 30)]"
  let ?rs = "[(True, example_hit_at 20, 1), (True, example_hit_at 10, 1),
              (True, example_hit_at 30, 1 :: int)]"
  have answers: "map (\<lambda>c. Item_Intersect c example_ray) ?cs = map Inr ?rs"
    by (simp add: example_hit_at)
  have hits: "hits_of ?rs = [example_hit_at 20, example_hit_at 10, example_hit_at 30]"
    and tests: "tests_of ?rs = 3"
    by (simp_all add: hits_of_def tests_of_def)
  from CompositeItem_Intersect_nearest [OF answers]
  obtain h where res: "CompositeItem_Intersect (Some ?cs) example_ray = Inr (True, h, 3)"
    and mem: "h \<in> {example_hit_at 20, example_hit_at 10, example_hit_at 30}"
    and least: "Len (Sub (Hit.At h) Origin) \<le> Len (Sub (Hit.At (example_hit_at 10)) Origin)"
    unfolding hits tests by auto
  from mem least have "h = example_hit_at 10"
    by (auto simp: example_hit_at_Len)
  with res show "CompositeItem_Intersect (Some ?cs) example_ray
                   = Inr (True, example_hit_at 10, 3)"
    by simp
next
  have answers: "map (\<lambda>c. Item_Intersect c example_ray_miss) [ItemT3 (example_triangle_at 10)]
                   = map Inr [(False, Hit_zero, 1)]"
    by (simp add: example_miss_at)
  from CompositeItem_Intersect_nearest [OF answers]
  show "CompositeItem_Intersect (Some [ItemT3 (example_triangle_at 10)]) example_ray_miss
          = Inr (False, Hit_zero, 1)"
    by (simp add: hits_of_def tests_of_def)
qed

text \<open>
  C2 as stated fails on the composite nothing was added to: it has no child that reports
  a hit, and \<open>Intersect\<close> panics instead of reporting no hit with count 0.
\<close>

theorem CompositeItem_Intersect_nil_counterexample:
  "CompositeItem_Intersect None example_ray = Inl (Panic ''Null children'')
   \<and> CompositeItem_Intersect None example_ray \<noteq> Inr (False, Hit_zero, 0)"
  by (simp add: CompositeItem_Intersect_def)

lemma lights_children: "children (foldl AddLight s ls) = children s"
  by (induction ls arbitrary: s) (simp_all add: AddLight_def)

text \<open>
  C10. \<open>Intersect\<close> on a composite with the \<open>nil\<close> list of children panics with
  \<open>Null children\<close>; so does \<open>Render\<close>, at every screen coordinate, on a new scene to
  which lights but no items were added.
\<close>

theorem Null_children_panic:
  "CompositeItem_Intersect None ray = Inl (Panic ''Null children'')
   \<and> Render (foldl AddLight (New vd sd) ls) x y = Inl (Panic ''Null children'')"
  by (simp add: Render_def CompositeItem_Intersect_def lights_children New_def Let_def)

section \<open>Rendering a miss\<close>

text \<open>
  C5 (as amended). For a scene with a non-nil list of items, all of which answer the
  primary ray (none panics): \<open>Render\<close> casts the ray with origin
  \<open>(0, 0, viewerDist)\<close> and direction \<open>(x / screenDist, y / screenDist, 1)\<close>, not
  normalised, and when no item reports a hit it returns the ambient colour, opaque black,
  with the sum of the items' test counts.
\<close>

theorem Render_miss:
  assumes "children s = Some cs"
    and "map (\<lambda>c. Item_Intersect c
               \<lparr>R3.At = \<lparr>X = 0, Y = 0, Z = viewerDist s\<rparr>,
                Dir = \<lparr>X = x / screenDist s, Y = y / screenDist s, Z = 1\<rparr>\<rparr>) cs
         = map Inr rs"
    and "hits_of rs = []"
  shows "Render s x y = Inr (NRGBA 0 0 0 255, tests_of rs)"
proof -
  let ?ray = "\<lparr>R3.At = \<lparr>X = 0, Y = 0, Z = viewerDist s\<rparr>,
               Dir = \<lparr>X = x / screenDist s, Y = y / screenDist s, Z = 1\<rparr>\<rparr>"
  have "test_children (map (\<lambda>c. Item_Intersect c ?ray) cs) 0 [] = Inr (tests_of rs, [])"
    unfolding assms(2) using assms(3) by (simp add: test_children_answers)
  then have "CompositeItem_Intersect (children s) ?ray = Inr (False, Hit_zero, tests_of rs)"
    by (simp add: CompositeItem_Intersect_def assms(1))
  then show ?thesis
    by (simp add: Render_def Let_def ambient_def)
qed

lemma example_scene_fields:
  "children example_scene = Some [ItemT3 example_triangle]"
  "viewerDist example_scene = - 5"
  "screenDist example_scene = 1"
  by (simp_all add: example_scene_def AddLight_def AddItem_def New_def CompositeItem_AddItem_def)

lemma example_scene_miss:
  "T3_Intersect example_triangle
     \<lparr>R3.At = \<lparr>X = 0, Y = 0, Z = - 5\<rparr>, Dir = \<lparr>X = 9 / 10, Y = 9 / 10, Z = 1\<rparr>\<rparr>
   = (False, Hit_zero, 1)"
  by (simp add: T3_Intersect_def IntersectUV_def Let_def example_triangle_def vec_defs)

theorem Render_miss_witness:
  "Render example_scene (9 / 10) (9 / 10) = Inr (NRGBA 0 0 0 255, 1)"
proof -
  have answers: "map (\<lambda>c. Item_Intersect c
               \<lparr>R3.At = \<lparr>X = 0, Y = 0, Z = viewerDist example_scene\<rparr>,
                Dir = \<lparr>X = (9 / 10) / screenDist example_scene,
                       Y = (9 / 10) / screenDist example_scene, Z = 1\<rparr>\<rparr>)
             [ItemT3 example_triangle]
         = map Inr [(False, Hit_zero, 1)]"
    by (simp add: example_scene_fields example_scene_miss)
  have none: "hits_of [(False, Hit_zero, 1 :: int)] = []"
    by (simp add: hits_of_def)
  from Render_miss [OF example_scene_fields(1) answers none]
  show ?thesis
    by (simp add: tests_of_def)
qed

text \<open>
  C5 as stated fails on the scene no item was added to: no item intersects the ray, and
  \<open>Render\<close> panics instead of returning the ambient colour with count 0.
\<close>

theorem Render_empty_scene_counterexample:
  "Render (New (- 5) 1) (9 / 10) (9 / 10) = Inl (Panic ''Null children'')
   \<and> Render (New (- 5) 1) (9 / 10) (9 / 10) \<noteq> Inr (NRGBA 0 0 0 255, 0)"
  by (simp add: Render_def CompositeItem_Intersect_def New_def Let_def)

section \<open>Illumination\<close>

lemma Len_nonneg: "0 \<le> Len p"
  by (simp add: Len_def)

lemma Len_Sub_commute: "Len (Sub p q) = Len (Sub q p)"
proof -
  have "(X p - X q) * (X p - X q) = (X q - X p) * (X q - X p)"
    "(Y p - Y q) * (Y p - Y q) = (Y q - Y p) * (Y q - Y p)"
    "(Z p - Z q) * (Z p - Z q) = (Z q - Z p) * (Z q - Z p)"
    by (simp_all add: algebra_simps)
  then show ?thesis
    by (simp add: Len_def Sub_def)
qed

lemma Dot_Sub_flip: "Dot (Sub p q) n = - Dot n (Sub q p)"
  by (simp add: Dot_def Sub_def algebra_simps)

lemma abs_divide_twice:
  fixes d l1 l2 :: real
  assumes "0 \<le> l1" and "0 \<le> l2"
  shows "\<bar>- d / l1 / l2\<bar> = \<bar>d\<bar> / (l2 * l1)"
  using assms by (simp add: abs_divide)

lemma source_term:
  "\<bar>Dot (Sub (Hit.At hit) (Light.At light)) (Normal hit)
      / Len (Sub (Hit.At hit) (Light.At light)) / Len (Normal hit)\<bar>
   = incidence_term (Normal hit) (Sub (Light.At light) (Hit.At hit))"
  unfolding incidence_term_def Dot_Sub_flip Len_Sub_commute [of "Hit.At hit"]
  by (rule abs_divide_twice) (rule Len_nonneg)+

lemma add_incidence_sum:
  "add_incidence hit ls incidence
     = incidence
       + (\<Sum>light\<leftarrow>ls. incidence_term (Normal hit) (Sub (Light.At light) (Hit.At hit)))"
proof (induction ls arbitrary: incidence)
  case Nil
  then show ?case by simp
next
  case (Cons light ls)
  show ?case
    unfolding add_incidence.simps Let_def source_term Cons.IH
    by simp
qed

lemma incidence_term_nonneg: "0 \<le> incidence_term n lv"
  by (simp add: incidence_term_def Len_nonneg)

lemma incidence_term_back: "incidence_term (Scale n (- 1)) lv = incidence_term n lv"
proof -
  have "Dot (Scale n (- 1)) lv = - Dot n lv"
    by (simp add: Dot_def Scale_def)
  moreover have "Len (Scale n (- 1)) = Len n"
    by (simp add: Len_def Scale_def)
  ultimately show ?thesis
    by (simp add: incidence_term_def)
qed

lemma average_incidence_nonneg: "0 \<le> average_incidence hit ls"
  unfolding average_incidence_def
  by (intro divide_nonneg_nonneg sum_list_nonneg) (auto simp: incidence_term_nonneg)

lemma illumination_value:
  assumes "Hit.Colour hit = Some c" and "RGBA c = (r, g, b, a)"
  shows "illumination s hit
       = Inr (NRGBA (toUint (average_incidence hit (lights s)) r)
                    (toUint (average_incidence hit (lights s)) g)
                    (toUint (average_incidence hit (lights s)) b) 255)"
  using assms
  by (simp add: illumination_def Let_def add_incidence_sum average_incidence_def)

lemma toUint_range:
  assumes "0 \<le> incidence" and "real (unat v) * incidence < 65535"
  shows "int (unat (toUint incidence v)) = \<lfloor>real (unat v) * incidence / 65535 * 256\<rfloor>"
proof -
  define f where "f = real (unat v) * incidence / 65535 * 256"
  have "0 \<le> real (unat v) * incidence"
    by (rule mult_nonneg_nonneg [OF of_nat_0_le_iff assms(1)])
  then have lo: "0 \<le> f"
    unfolding f_def by simp
  have hi: "f < 256"
    unfolding f_def using assms(2) by (simp add: mult.commute)
  have "0 \<le> \<lfloor>f\<rfloor>" "\<lfloor>f\<rfloor> < 256"
    using lo hi by (simp_all add: floor_less_iff)
  then have "uint (word_of_int \<lfloor>f\<rfloor> :: 8 word) = \<lfloor>f\<rfloor>"
    by (simp add: uint_word_of_int)
  then have "int (unat (uint8_of_float64 f)) = \<lfloor>f\<rfloor>"
    using lo by (simp add: uint8_of_float64_def int_of_float64_def)
  then show ?thesis
    unfolding toUint_def f_def .
qed


text \<open>
  What \<open>illumination\<close> computes. For a scene with at least one light and a hit with a
  colour, it returns the opaque colour whose red, green and blue channels are \<open>toUint\<close>
  of the hit's 16-bit channels at the incidence averaged over the lights; the incidence
  term of a light is \<open>|dot(normal, lightVec)| / (|normal| |lightVec|)\<close>, so the hit with
  the opposite normal is lit the same. The average is not negative, and a channel \<open>v\<close>
  with \<open>v * incidence < 65535\<close> comes out as the integer part of
  \<open>v * incidence / 65535 * 256\<close>, between 0 and 255.
\<close>

lemma illumination_average_incidence:
  assumes "lights s \<noteq> []" and "Hit.Colour hit = Some c" and "RGBA c = (r, g, b, a)"
  shows "illumination s hit
           = Inr (NRGBA (toUint (average_incidence hit (lights s)) r)
                        (toUint (average_incidence hit (lights s)) g)
                        (toUint (average_incidence hit (lights s)) b) 255)
       \<and> illumination s (hit\<lparr>Normal := Scale (Normal hit) (- 1)\<rparr>) = illumination s hit
       \<and> 0 \<le> average_incidence hit (lights s)
       \<and> (\<forall>v. real (unat v) * average_incidence hit (lights s) < 65535 \<longrightarrow>
              int (unat (toUint (average_incidence hit (lights s)) v))
                = \<lfloor>real (unat v) * average_incidence hit (lights s) / 65535 * 256\<rfloor>)"
proof (intro conjI allI impI)
  show "illumination s hit
           = Inr (NRGBA (toUint (average_incidence hit (lights s)) r)
                        (toUint (average_incidence hit (lights s)) g)
                        (toUint (average_incidence hit (lights s)) b) 255)"
    using assms(2,3) by (rule illumination_value)
next
  have "average_incidence (hit\<lparr>Normal := Scale (Normal hit) (- 1)\<rparr>) (lights s)
          = average_incidence hit (lights s)"
    by (simp add: average_incidence_def incidence_term_back)
  then show "illumination s (hit\<lparr>Normal := Scale (Normal hit) (- 1)\<rparr>) = illumination s hit"
    using assms(2,3)
    by (simp add: illumination_value [where c = c and r = r and g = g and b = b and a = a])
next
  show "0 \<le> average_incidence hit (lights s)"
    by (rule average_incidence_nonneg)
next
  fix v :: "32 word"
  assume "real (unat v) * average_incidence hit (lights s) < 65535"
  with average_incidence_nonneg
  show "int (unat (toUint (average_incidence hit (lights s)) v))
          = \<lfloor>real (unat v) * average_incidence hit (lights s) / 65535 * 256\<rfloor>"
    by (rule toUint_range)
qed

lemma example_RGBA: "RGBA (NRGBA 128 0 0 255) = (32896, 0, 0, 65535)"
  by (simp add: premultiply_def Let_def)

lemma example_average: "average_incidence example_lit_hit example_lights = 1 / 2"
  by (simp add: average_incidence_def incidence_term_def example_lit_hit_def
      example_lights_def Len_def Dot_def Sub_def)

lemma example_lit_scene_lights: "lights example_lit_scene = example_lights"
  by (simp add: example_lit_scene_def example_lights_def AddLight_def New_def)

lemma example_toUint: "toUint (1 / 2) 32896 = 64" "toUint (1 / 2) 0 = 0"
  by (simp_all add: toUint_def uint8_of_float64_def int_of_float64_def)

lemma illumination_average_incidence_example:
  "illumination example_lit_scene example_lit_hit = Inr (NRGBA 64 0 0 255)
   \<and> illumination example_lit_scene (example_lit_hit\<lparr>Normal := \<lparr>X = 0, Y = 0, Z = - 1\<rparr>\<rparr>)
       = Inr (NRGBA 64 0 0 255)
   \<and> int (unat (toUint (1 / 2) 32896)) = 64"
proof -
  have l: "lights example_lit_scene \<noteq> []"
    by (simp add: example_lit_scene_lights example_lights_def)
  have c: "Hit.Colour example_lit_hit = Some (NRGBA 128 0 0 255)"
    by (simp add: example_lit_hit_def)
  have n: "Scale (Normal example_lit_hit) (- 1) = \<lparr>X = 0, Y = 0, Z = - 1\<rparr>"
    by (simp add: example_lit_hit_def Scale_def)
  have small: "real (unat (32896 :: 32 word)) * (1 / 2) < 65535"
    by simp
  from illumination_average_incidence [OF l c example_RGBA] small
  show ?thesis
    unfolding example_lit_scene_lights example_average n
    by (simp add: example_toUint)
qed

text \<open>
  The averaged incidence is at most 1 (Cauchy and Schwarz), so a channel \<open>v \<le> 0xffff\<close>
  leaves the range 0 to 255 only when \<open>v * incidence = 65535\<close>.
\<close>

lemma Len_square: "Len p * Len p = Dot p p"
  by (simp add: Len_def Dot_def)

lemma Dot_Cauchy: "Dot n lv * Dot n lv \<le> Dot n n * Dot lv lv"
proof -
  have "Dot n n * Dot lv lv - Dot n lv * Dot n lv
      = (X n * Y lv - Y n * X lv) * (X n * Y lv - Y n * X lv)
        + (Y n * Z lv - Z n * Y lv) * (Y n * Z lv - Z n * Y lv)
        + (Z n * X lv - X n * Z lv) * (Z n * X lv - X n * Z lv)"
    by (simp add: Dot_def algebra_simps)
  also have "0 \<le> \<dots>"
    by (intro add_nonneg_nonneg) simp_all
  finally show ?thesis by simp
qed

lemma incidence_term_le_one: "incidence_term n lv \<le> 1"
proof -
  have "(Len n * Len lv) * (Len n * Len lv) = (Len n * Len n) * (Len lv * Len lv)"
    by (simp only: mult_ac)
  then have sq: "(Len n * Len lv) * (Len n * Len lv) = Dot n n * Dot lv lv"
    by (simp only: Len_square)
  have "\<bar>Dot n lv\<bar> * \<bar>Dot n lv\<bar> = Dot n lv * Dot n lv"
    by simp
  then have "\<bar>Dot n lv\<bar> * \<bar>Dot n lv\<bar> \<le> (Len n * Len lv) * (Len n * Len lv)"
    using Dot_Cauchy [of n lv] by (simp only: sq)
  then have squares: "\<bar>Dot n lv\<bar>\<^sup>2 \<le> (Len n * Len lv)\<^sup>2"
    by (simp only: power2_eq_square)
  have nonneg: "0 \<le> Len n * Len lv"
    by (simp add: Len_nonneg)
  have le: "\<bar>Dot n lv\<bar> \<le> Len n * Len lv"
    using squares nonneg by (rule power2_le_imp_le)
  show ?thesis
  proof (cases "Len n * Len lv = 0")
    case True
    show ?thesis
      unfolding incidence_term_def True by simp
  next
    case False
    with nonneg have pos: "0 < Len n * Len lv"
      by (rule_tac order.not_eq_order_implies_strict) (simp_all only: not_sym)
    show ?thesis
      unfolding incidence_term_def using le pos by (simp only: divide_le_eq_1_pos)
  qed
qed

lemma average_incidence_le_one: "average_incidence hit ls \<le> 1"
proof -
  have "(\<Sum>light\<leftarrow>ls. incidence_term (Normal hit) (Sub (Light.At light) (Hit.At hit)))
          \<le> (\<Sum>light\<leftarrow>ls. 1)"
    by (intro sum_list_mono) (simp add: incidence_term_le_one)
  then have "(\<Sum>light\<leftarrow>ls. incidence_term (Normal hit) (Sub (Light.At light) (Hit.At hit)))
          \<le> real (length ls)"
    by (simp add: sum_list_triv)
  then show ?thesis
    unfolding average_incidence_def
    by (cases "ls = []") (simp_all add: divide_le_eq)
qed

text \<open>
  C4 fails on the code at full scale. The white hit lit straight on has the channels
  \<open>0xffff\<close> and the incidence 1, for which \<open>toUint\<close> computes \<open>256.0\<close>: that is outside
  the 8-bit range, \<open>uint8\<close> cannot hold it, and with the low eight bits kept the fully
  lit white hit comes out black.
\<close>

theorem illumination_full_scale:
  "lights example_white_scene \<noteq> []
   \<and> RGBA (NRGBA 255 255 255 255) = (65535, 65535, 65535, 65535)
   \<and> average_incidence example_white_hit (lights example_white_scene) = 1
   \<and> real (unat (65535 :: 32 word)) * 1 / 65535 * 256 = 256
   \<and> illumination example_white_scene example_white_hit = Inr (NRGBA 0 0 0 255)"
proof -
  have l: "lights example_white_scene
             = [\<lparr>Light.At = \<lparr>X = 0, Y = 0, Z = 11\<rparr>, Colour = NRGBA 255 255 255 255\<rparr>]"
    by (simp add: example_white_scene_def AddLight_def New_def)
  have c: "Hit.Colour example_white_hit = Some (NRGBA 255 255 255 255)"
    by (simp add: example_white_hit_def)
  have rgba: "RGBA (NRGBA 255 255 255 255) = (65535, 65535, 65535, 65535)"
    by (simp add: premultiply_def Let_def)
  have avg: "average_incidence example_white_hit (lights example_white_scene) = 1"
    unfolding l
    by (simp add: average_incidence_def incidence_term_def example_white_hit_def
        Len_def Dot_def Sub_def)
  have full: "toUint 1 65535 = 0"
    by (simp add: toUint_def uint8_of_float64_def int_of_float64_def)
  have "illumination example_white_scene example_white_hit = Inr (NRGBA 0 0 0 255)"
    unfolding illumination_value [OF c rgba] avg full ..
  with l rgba avg show ?thesis
    by simp
qed

section \<open>The helper vector of a circle\<close>

text \<open>
  C6 fails on the code. For the axis \<open>(1, 0, 0)\<close> the test \<open>v.Dot(axis) < Epsilon\<close> keeps
  the helper \<open>(1, 0, 0)\<close>, which is the axis itself; for the axis \<open>(0, 1, 0)\<close> it falls
  back to \<open>(0, 1, 0)\<close>, again the axis. In both cases the cross product of the axis and
  the helper has length 0, and \<open>Normalise\<close> divides by it.
\<close>

theorem Points_helper_parallel:
  "Points_v example_circle = axis example_circle
   \<and> Cross (axis example_circle) (Points_v example_circle) = Origin
   \<and> Len (Cross (axis example_circle) (Points_v example_circle)) = 0
   \<and> Points_v example_circle_y = axis example_circle_y
   \<and> Len (Cross (axis example_circle_y) (Points_v example_circle_y)) = 0"
  by (simp add: Points_v_def example_circle_def example_circle_y_def Let_def Len_def vec_defs)

section \<open>The grid of a torus\<close>

lemma row_kites_all:
  assumes "0 < numCols" and "length row = numCols" and "length next = numCols"
  shows "row_kites row next numCols img js items
       = Inr (items @ map (\<lambda>j. ItemKite3 (NewKite3 (row ! j) (next ! ((j + 1) mod numCols))
                                          (row ! ((j + 1) mod numCols)) img)) js)"
  using assms by (induction js arbitrary: items) simp_all

lemma grid_kites_all:
  assumes "0 < numCols" and "\<forall>row \<in> set grid. length row = numCols"
    and "numRows = length grid" and "\<forall>i \<in> set is. i < numRows"
  shows "grid_kites grid numRows numCols img is items
       = Inr (items @ concat (map (\<lambda>i. map (cell_kite grid numRows numCols img i) [0..<numCols]) is))"
  using assms(4)
proof (induction "is" arbitrary: items)
  case Nil
  then show ?case by simp
next
  case (Cons i "is")
  then have i: "i < length grid"
    using assms(3) by simp
  then have row: "length (grid ! i) = numCols"
    using assms(2) by simp
  have "0 < length grid"
    using i by (cases grid) simp_all
  then have "(i + 1) mod numRows < length grid"
    unfolding assms(3) by (rule mod_less_divisor)
  then have nxt: "length (grid ! ((i + 1) mod numRows)) = numCols"
    using assms(2) by simp
  have "grid_kites grid numRows numCols img (i # is) items
      = grid_kites grid numRows numCols img is
          (items @ map (cell_kite grid numRows numCols img i) [0..<numCols])"
    using row nxt by (simp add: Let_def row_kites_all [OF assms(1)] cell_kite_def [abs_def])
  also have "\<dots> = Inr ((items @ map (cell_kite grid numRows numCols img i) [0..<numCols])
      @ concat (map (\<lambda>i. map (cell_kite grid numRows numCols img i) [0..<numCols]) is))"
    using Cons.prems by (intro Cons.IH) simp
  finally show ?case by simp
qed

lemma cell_index: "i < m \<Longrightarrow> j < n \<Longrightarrow> i * n + j < m * (n::nat)"
proof -
  assume "i < m" "j < n"
  then have "i * n + j < Suc i * n" by simp
  also have "\<dots> \<le> m * n"
    using \<open>i < m\<close> by (intro mult_le_mono1) simp
  finally show ?thesis .
qed

lemma concat_rows_length:
  "length (concat (map (\<lambda>i. map (f i) [0..<n]) [0..<m])) = m * n"
  by (induction m) simp_all

lemma concat_rows_nth:
  assumes "i < m" and "j < n"
  shows "concat (map (\<lambda>i. map (f i) [0..<n]) [0..<m]) ! (i * n + j) = f i j"
  using assms(1)
proof (induction m)
  case 0
  then show ?case by simp
next
  case (Suc m)
  show ?case
  proof (cases "i < m")
    case True
    then have "i * n + j < m * n"
      using assms(2) by (rule cell_index)
    then show ?thesis
      using Suc.IH [OF True] by (simp add: nth_append concat_rows_length)
  next
    case False
    then have "i = m"
      using Suc.prems by simp
    then show ?thesis
      using assms(2) by (simp add: nth_append concat_rows_length)
  qed
qed

text \<open>
  C8. For a grid of \<open>numMajor\<close> rows of \<open>numMinor\<close> points each, both positive,
  \<open>gridToKites\<close> returns \<open>numMajor * numMinor\<close> kites, row by row; the kite of cell
  \<open>(i, j)\<close> has the corners \<open>grid[i][j]\<close>, \<open>grid[(i+1) mod numMajor][(j+1) mod numMinor]\<close>
  and \<open>grid[i][(j+1) mod numMinor]\<close>; the kite of the last cell has the corners
  \<open>grid[numMajor-1][numMinor-1]\<close>, \<open>grid[0][0]\<close> and \<open>grid[numMajor-1][0]\<close>.
\<close>

theorem gridToKites_wrap:
  assumes "length grid = numMajor" and "0 < numMajor" and "0 < numMinor"
    and "\<forall>row \<in> set grid. length row = numMinor"
  shows "\<exists>items. gridToKites grid img = Inr items
           \<and> length items = numMajor * numMinor
           \<and> (\<forall>i < numMajor. \<forall>j < numMinor.
                 items ! (i * numMinor + j)
                   = ItemKite3 (NewKite3 (grid ! i ! j)
                        (grid ! ((i + 1) mod numMajor) ! ((j + 1) mod numMinor))
                        (grid ! i ! ((j + 1) mod numMinor)) img))
           \<and> items ! ((numMajor - 1) * numMinor + (numMinor - 1))
                 = ItemKite3 (NewKite3 (grid ! (numMajor - 1) ! (numMinor - 1))
                      (grid ! 0 ! 0) (grid ! (numMajor - 1) ! 0) img)"
proof -
  let ?items = "concat (map (\<lambda>i. map (cell_kite grid numMajor numMinor img i) [0..<numMinor])
                          [0..<numMajor])"
  have ne: "grid \<noteq> []"
    using assms(1,2) by auto
  then have "grid ! 0 \<in> set grid"
    by simp
  then have cols: "length (grid ! 0) = numMinor"
    using assms(4) by blast
  have res: "gridToKites grid img = Inr ?items"
    using ne grid_kites_all [OF assms(3,4) assms(1) [symmetric], of "[0..<numMajor]" img "[]"]
    by (simp add: gridToKites_def Let_def cols assms(1))
  have cells: "?items ! (i * numMinor + j) = cell_kite grid numMajor numMinor img i j"
    if "i < numMajor" "j < numMinor" for i j
    using that by (rule concat_rows_nth)
  have last: "?items ! ((numMajor - 1) * numMinor + (numMinor - 1))
      = ItemKite3 (NewKite3 (grid ! (numMajor - 1) ! (numMinor - 1))
                      (grid ! 0 ! 0) (grid ! (numMajor - 1) ! 0) img)"
    using cells [of "numMajor - 1" "numMinor - 1"] assms(2,3)
    by (simp add: cell_kite_def)
  show ?thesis
    using res cells last by (auto simp: concat_rows_length cell_kite_def)
qed

theorem gridToKites_wrap_witness:
  "\<exists>items. gridToKites example_grid example_image = Inr items
      \<and> length items = 4
      \<and> items ! 1 = ItemKite3 (NewKite3 \<lparr>X = 0, Y = 1, Z = 0\<rparr> \<lparr>X = 1, Y = 0, Z = 0\<rparr>
                                         \<lparr>X = 0, Y = 0, Z = 0\<rparr> example_image)
      \<and> items ! 3 = ItemKite3 (NewKite3 \<lparr>X = 1, Y = 1, Z = 0\<rparr> \<lparr>X = 0, Y = 0, Z = 0\<rparr>
                                         \<lparr>X = 1, Y = 0, Z = 0\<rparr> example_image)"
proof -
  have rows: "length example_grid = 2" "\<forall>row \<in> set example_grid. length row = 2"
    by (simp_all add: example_grid_def)
  from gridToKites_wrap [OF rows(1) _ _ rows(2), of example_image]
  obtain items where res: "gridToKites example_grid example_image = Inr items"
    and len: "length items = 2 * 2"
    and cells: "\<forall>i < 2. \<forall>j < 2. items ! (i * 2 + j)
                  = ItemKite3 (NewKite3 (example_grid ! i ! j)
                       (example_grid ! ((i + 1) mod 2) ! ((j + 1) mod 2))
                       (example_grid ! i ! ((j + 1) mod 2)) example_image)"
    and last: "items ! ((2 - 1) * 2 + (2 - 1))
                  = ItemKite3 (NewKite3 (example_grid ! (2 - 1) ! (2 - 1))
                       (example_grid ! 0 ! 0) (example_grid ! (2 - 1) ! 0) example_image)"
    by auto
  from cells have "items ! (0 * 2 + 1)
      = ItemKite3 (NewKite3 (example_grid ! 0 ! 1)
           (example_grid ! ((0 + 1) mod 2) ! ((1 + 1) mod 2))
           (example_grid ! 0 ! ((1 + 1) mod 2)) example_image)"
    by (metis pos2 one_less_numeral_iff semiring_norm(76))
  with res len last show ?thesis
    by (simp add: example_grid_def)
qed

end
